theory Spec2Isabelle
  imports Complex_Main "HOL-Library.Sublist"
begin

section \<open>Near-Me amenity search: the distance calculator and the search engine of server.py\<close>

text \<open>
  The embedding follows \<^verbatim>\<open>haversine_km\<close> and \<^verbatim>\<open>overpass_query\<close> of server.py.
  Conventions:
  \<^item> \<open>haversine_km\<close> and \<open>overpass_query\<close> read a Python \<^verbatim>\<open>float\<close> as a HOL \<open>real\<close>
    with exact arithmetic; \<open>haversine_km_float\<close> and \<open>overpass_query_float\<close> read it as a
    double, with every operation rounded, and the latter also with NaN; the radius of
    the query is computed on doubles in both;
  \<^item> a Python \<^verbatim>\<open>int\<close> is a HOL \<open>int\<close>;
  \<^item> a JSON object read with \<^verbatim>\<open>.get\<close> is a record of optional fields or a map; a field
    that is absent is \<open>None\<close>, and so is a coordinate that is \<^verbatim>\<open>null\<close>; tag values are
    strings, coordinates are numbers, \<^verbatim>\<open>center\<close> and \<^verbatim>\<open>tags\<close> are objects when present;
  \<^item> every exception the source can raise on such input is a constructor of \<open>error\<close>,
    and a function that can raise returns \<open>error + 'a\<close>;
  \<^item> the HTTP exchange, the configuration read from the environment and the rendering
    of a float inside the f-string are fields of the record \<open>env\<close>.
\<close>

subsection \<open>Errors\<close>

datatype transport_failure = Unreachable | Timed_out

datatype error =
    Transport transport_failure
  | HTTPError nat
  | JSONDecodeError
  | AttributeError
  | TypeError
  | KeyError
  | ValueError

subsection \<open>Data model\<close>

type_synonym tags = "string \<rightharpoonup> string"

record center =
  c_lat :: "real option"
  c_lon :: "real option"

text \<open>A raw element of the response. \<^verbatim>\<open>el["type"]\<close> is read with a subscript, so its
  absence is kept visible; all other fields are read with \<^verbatim>\<open>.get\<close>.\<close>

record element =
  el_type :: "string option"
  el_lat :: "real option"
  el_lon :: "real option"
  el_center :: "center option"
  el_tags :: "tags option"

text \<open>The body of a response, by what \<^verbatim>\<open>res.json().get("elements", [])\<close> and the loop
  header make of it:
  \<^item> \<open>Not_json\<close>: not JSON at all, \<^verbatim>\<open>res.json()\<close> raises;
  \<^item> \<open>Json_other\<close>: a JSON value that is no object, so \<^verbatim>\<open>.get\<close> does not exist on it;
  \<^item> \<open>Json_object None\<close>: an object without \<^verbatim>\<open>"elements"\<close>;
  \<^item> \<open>Json_object (Some els)\<close>: an object whose \<^verbatim>\<open>"elements"\<close> is a list of objects;
  \<^item> \<open>Json_elements_not_iterable\<close>: an object whose \<^verbatim>\<open>"elements"\<close> is \<^verbatim>\<open>null\<close>, a number
    or a boolean, so the \<^verbatim>\<open>for\<close> statement raises TypeError;
  \<^item> \<open>Json_elements_empty_other\<close>: an object whose \<^verbatim>\<open>"elements"\<close> is the empty string or
    the empty object, over which the loop runs no iteration;
  \<^item> \<open>Json_elements_non_objects\<close>: an object whose \<^verbatim>\<open>"elements"\<close> is a non-empty string
    or a non-empty object, whose first item is a string, so \<^verbatim>\<open>el.get\<close> raises
    AttributeError.

  A list with an entry that is no object, and an entry with a field of another JSON
  type than the wire contract gives it, are not represented. The element type is a
  parameter: the elements of a response are read with exact or with machine numbers.\<close>

datatype 'e body =
    Not_json
  | Json_other
  | Json_object "'e list option"
  | Json_elements_not_iterable
  | Json_elements_empty_other
  | Json_elements_non_objects

text \<open>What \<^verbatim>\<open>requests.post(..., timeout=30)\<close> does: it raises, or it returns a response
  with a status code and a body.\<close>

datatype 'e post_result = Failed transport_failure | Responded nat "'e body"

record amenity_result =
  name :: string
  address :: string
  contact :: string
  lat :: real
  lon :: real
  distance_km :: real

record env =
  OVERPASS_URL :: string
  MAX_RESULTS :: int
  requests_post :: "string \<Rightarrow> string \<Rightarrow> element post_result"
  str_float :: "real \<Rightarrow> string"

subsection \<open>The distance calculator\<close>

definition radians :: "real \<Rightarrow> real" where
  "radians x = x * (pi / 180)"

text \<open>\<^verbatim>\<open>math.sqrt\<close> raises ValueError (math domain error) on a negative argument.\<close>

definition py_sqrt :: "real \<Rightarrow> error + real" where
  "py_sqrt x = (if x < 0 then Inl ValueError else Inr (sqrt x))"

text \<open>\<^verbatim>\<open>math.atan2(y, x)\<close>: the angle of the point \<open>(x, y)\<close>, in \<open>(-pi, pi]\<close>; it never
  raises, and \<^verbatim>\<open>atan2(0, 0)\<close> is 0.\<close>

definition atan2 :: "real \<Rightarrow> real \<Rightarrow> real" where
  "atan2 y x =
     (if 0 < x then arctan (y / x)
      else if x < 0 then (if 0 \<le> y then arctan (y / x) + pi else arctan (y / x) - pi)
      else if 0 < y then pi / 2
      else if y < 0 then - (pi / 2)
      else 0)"

definition hav_a :: "real \<Rightarrow> real \<Rightarrow> real \<Rightarrow> real \<Rightarrow> real" where
  "hav_a lat1 lon1 lat2 lon2 =
     (let phi1 = radians lat1;
          phi2 = radians lat2;
          dphi = radians (lat2 - lat1);
          dlambda = radians (lon2 - lon1)
      in (sin (dphi / 2))\<^sup>2 + cos phi1 * cos phi2 * (sin (dlambda / 2))\<^sup>2)"

definition haversine_km :: "real \<Rightarrow> real \<Rightarrow> real \<Rightarrow> real \<Rightarrow> error + real" where
  "haversine_km lat1 lon1 lat2 lon2 =
     (let R = 6371;
          a = hav_a lat1 lon1 lat2 lon2
      in case py_sqrt a of
           Inl e \<Rightarrow> Inl e
         | Inr s1 \<Rightarrow>
             (case py_sqrt (1 - a) of
                Inl e \<Rightarrow> Inl e
              | Inr s2 \<Rightarrow> Inr (R * 2 * atan2 s1 s2)))"

subsection \<open>Machine arithmetic\<close>

text \<open>
  The interpreter computes on IEEE 754 binary64 numbers. \<open>rnd x\<close> is the finite double
  nearest to the real \<open>x\<close>, ties to the even significand: the spacing of the doubles
  around \<open>x\<close> is \<open>quantum x\<close>, with 53 significant bits and the least exponent -1022
  (below it the subnormal numbers, spaced 2 to the -1074). A finite double is
  the real number it denotes. Not modelled: overflow to an infinity (every magnitude
  has a double here), the infinities, NaN and the sign of zero.

  Addition, subtraction, multiplication, division and \<^verbatim>\<open>math.sqrt\<close> return the rounded
  exact result, as IEEE 754 requires. \<^verbatim>\<open>math.sin\<close>, \<^verbatim>\<open>math.cos\<close>, \<^verbatim>\<open>math.atan2\<close> and
  the square \<^verbatim>\<open>x**2\<close> are taken as the rounded exact result too; the C library may be
  off by one unit in the last place from that.
\<close>

definition round_even :: "real \<Rightarrow> int" where
  "round_even r =
     (let f = \<lfloor>r\<rfloor>; d = r - real_of_int f
      in if d < 1 / 2 then f
         else if 1 / 2 < d then f + 1
         else if even f then f else f + 1)"

definition quantum :: "real \<Rightarrow> real" where
  "quantum x = 2 powr real_of_int (max \<lfloor>log 2 \<bar>x\<bar>\<rfloor> (- 1022) - 52)"

definition rnd :: "real \<Rightarrow> real" where
  "rnd x = (if x = 0 then 0 else quantum x * real_of_int (round_even (x / quantum x)))"

text \<open>\<^verbatim>\<open>math.radians(x)\<close> multiplies by the constant \<^verbatim>\<open>pi / 180.0\<close>, itself a double.\<close>

definition deg_to_rad :: real where
  "deg_to_rad = rnd (rnd pi / 180)"

definition fradians :: "real \<Rightarrow> real" where
  "fradians x = rnd (x * deg_to_rad)"

definition sqrt_float :: "real \<Rightarrow> error + real" where
  "sqrt_float x = (if x < 0 then Inl ValueError else Inr (rnd (sqrt x)))"

text \<open>\<^verbatim>\<open>haversine_km\<close> as the interpreter evaluates it on finite doubles, every
  operation rounded, in the order of the source.\<close>

definition hav_a_float :: "real \<Rightarrow> real \<Rightarrow> real \<Rightarrow> real \<Rightarrow> real" where
  "hav_a_float lat1 lon1 lat2 lon2 =
     (let phi1 = fradians lat1;
          phi2 = fradians lat2;
          dphi = fradians (rnd (lat2 - lat1));
          dlambda = fradians (rnd (lon2 - lon1));
          s1 = rnd (sin (rnd (dphi / 2)));
          s2 = rnd (sin (rnd (dlambda / 2)))
      in rnd (rnd (s1 * s1) + rnd (rnd (rnd (cos phi1) * rnd (cos phi2)) * rnd (s2 * s2))))"

definition haversine_km_float :: "real \<Rightarrow> real \<Rightarrow> real \<Rightarrow> real \<Rightarrow> error + real" where
  "haversine_km_float lat1 lon1 lat2 lon2 =
     (let R = 6371;
          a = hav_a_float lat1 lon1 lat2 lon2
      in case sqrt_float a of
           Inl e \<Rightarrow> Inl e
         | Inr s1 \<Rightarrow>
             (case sqrt_float (rnd (1 - a)) of
                Inl e \<Rightarrow> Inl e
              | Inr s2 \<Rightarrow> Inr (rnd (rnd (R * 2) * rnd (atan2 s1 s2)))))"

subsection \<open>Query construction\<close>

text \<open>\<^verbatim>\<open>int(x)\<close> on a float truncates towards zero.\<close>

definition py_int :: "real \<Rightarrow> int" where
  "py_int x = (if 0 \<le> x then \<lfloor>x\<rfloor> else \<lceil>x\<rceil>)"

definition digit :: "nat \<Rightarrow> char" where
  "digit d = ''0123456789'' ! d"

function str_nat :: "nat \<Rightarrow> string" where
  "str_nat n = (if n < 10 then [digit n] else str_nat (n div 10) @ [digit (n mod 10)])"
  by pat_completeness auto
termination
  by (relation "measure (\<lambda>n. n)") auto

declare str_nat.simps [simp del]

definition str_int :: "int \<Rightarrow> string" where
  "str_int i = (if i < 0 then ''-'' @ str_nat (nat (- i)) else str_nat (nat i))"

text \<open>The f-string of \<^verbatim>\<open>overpass_query\<close>, line by line. \<open>fmt\<close> renders the numbers of
  the origin. The product \<^verbatim>\<open>radius_km * 1000\<close> is the rounded product of two doubles.\<close>

definition build_query :: "('n \<Rightarrow> string) \<Rightarrow> 'n \<Rightarrow> 'n \<Rightarrow> real \<Rightarrow> string \<Rightarrow> string" where
  \<open>build_query fmt qlat qlon radius_km amenity =
     (let radius_m = py_int (rnd (radius_km * 1000))
      in ''\<newline>''
       @ ''[out:json][timeout:25];\<newline>''
       @ ''(\<newline>''
       @ ''  node["amenity"="'' @ amenity @ ''"](around:'' @ str_int radius_m @ '','' @ fmt qlat @ '','' @ fmt qlon @ '');\<newline>''
       @ ''  way["amenity"="'' @ amenity @ ''"](around:'' @ str_int radius_m @ '','' @ fmt qlat @ '','' @ fmt qlon @ '');\<newline>''
       @ ''  relation["amenity"="'' @ amenity @ ''"](around:'' @ str_int radius_m @ '','' @ fmt qlat @ '','' @ fmt qlon @ '');\<newline>''
       @ '');\<newline>''
       @ ''out center;\<newline>'')\<close>

subsection \<open>Normalisation of one element\<close>

text \<open>Truthiness of the value of \<^verbatim>\<open>tags.get(k)\<close>: \<^verbatim>\<open>None\<close> and the empty string are false.\<close>

definition truthy :: "string option \<Rightarrow> bool" where
  "truthy v = (case v of None \<Rightarrow> False | Some s \<Rightarrow> s \<noteq> [])"

text \<open>\<^verbatim>\<open>a or b\<close> on two such values, and \<^verbatim>\<open>a or "literal"\<close>.\<close>

definition py_or :: "string option \<Rightarrow> string option \<Rightarrow> string option" where
  "py_or a b = (if truthy a then a else b)"

definition or_str :: "string option \<Rightarrow> string \<Rightarrow> string" where
  "or_str a d = (case a of None \<Rightarrow> d | Some s \<Rightarrow> if s \<noteq> [] then s else d)"

definition el_name :: "tags \<Rightarrow> string" where
  "el_name t = or_str (py_or (t ''name'') (t ''operator'')) ''Unknown''"

definition el_phone :: "tags \<Rightarrow> string option" where
  "el_phone t = py_or (py_or (t ''phone'') (t ''contact:phone'')) (t ''telephone'')"

definition addr_keys :: "string list" where
  "addr_keys = [''addr:street'', ''addr:housenumber'', ''addr:city'',
                ''addr:postcode'', ''addr:state'', ''addr:country'']"

definition addr_parts :: "tags \<Rightarrow> string list" where
  "addr_parts t = List.map_filter (\<lambda>k. if truthy (t k) then t k else None) addr_keys"

fun join :: "string \<Rightarrow> string list \<Rightarrow> string" where
  "join sep [] = []"
| "join sep [x] = x"
| "join sep (x # y # ys) = x @ sep @ join sep (y # ys)"

definition el_address :: "tags \<Rightarrow> string" where
  "el_address t =
     (let joined = join '', '' (addr_parts t)
      in if joined \<noteq> [] then joined
         else (case t ''addr:full'' of None \<Rightarrow> ''Not available'' | Some s \<Rightarrow> s))"

text \<open>The pair \<^verbatim>\<open>(lat_e, lon_e)\<close>; \<^verbatim>\<open>el["type"]\<close> raises KeyError when the key is missing.\<close>

definition coords :: "element \<Rightarrow> error + (real option \<times> real option)" where
  "coords el =
     (case el_type el of
        None \<Rightarrow> Inl KeyError
      | Some ty \<Rightarrow>
          if ty = ''node'' then Inr (el_lat el, el_lon el)
          else (case el_center el of
                  None \<Rightarrow> Inr (None, None)
                | Some c \<Rightarrow> Inr (c_lat c, c_lon c)))"

text \<open>The body of the loop: an error, \<open>None\<close> for \<^verbatim>\<open>continue\<close>, or the record appended.\<close>

definition normalise :: "real \<Rightarrow> real \<Rightarrow> element \<Rightarrow> error + amenity_result option" where
  "normalise qlat qlon el =
     (let t = (case el_tags el of None \<Rightarrow> Map.empty | Some m \<Rightarrow> m);
          nm = el_name t;
          phone = el_phone t;
          addr = el_address t
      in case coords el of
           Inl e \<Rightarrow> Inl e
         | Inr (None, _) \<Rightarrow> Inr None
         | Inr (Some lat_e, None) \<Rightarrow> Inr None
         | Inr (Some lat_e, Some lon_e) \<Rightarrow>
             (case haversine_km qlat qlon lat_e lon_e of
                Inl e \<Rightarrow> Inl e
              | Inr d \<Rightarrow>
                  Inr (Some \<lparr>name = nm, address = addr,
                             contact = or_str phone ''Not available'',
                             lat = lat_e, lon = lon_e, distance_km = d\<rparr>)))"

subsection \<open>The search engine\<close>

fun collect :: "real \<Rightarrow> real \<Rightarrow> amenity_result list \<Rightarrow> element list \<Rightarrow> error + amenity_result list" where
  "collect qlat qlon results [] = Inr results"
| "collect qlat qlon results (el # els) =
     (case normalise qlat qlon el of
        Inl e \<Rightarrow> Inl e
      | Inr None \<Rightarrow> collect qlat qlon results els
      | Inr (Some r) \<Rightarrow> collect qlat qlon (results @ [r]) els)"

text \<open>\<^verbatim>\<open>Response.raise_for_status()\<close> raises HTTPError for the client and server error
  codes, 400 to 599, and for no other status.\<close>

definition raise_for_status :: "nat \<Rightarrow> error + unit" where
  "raise_for_status status = (if 400 \<le> status \<and> status < 600 then Inl (HTTPError status) else Inr ())"

text \<open>\<^verbatim>\<open>res.json().get("elements", [])\<close>.\<close>

definition json_elements :: "'e body \<Rightarrow> error + 'e list" where
  "json_elements b =
     (case b of
        Not_json \<Rightarrow> Inl JSONDecodeError
      | Json_other \<Rightarrow> Inl AttributeError
      | Json_object None \<Rightarrow> Inr []
      | Json_object (Some els) \<Rightarrow> Inr els
      | Json_elements_not_iterable \<Rightarrow> Inl TypeError
      | Json_elements_empty_other \<Rightarrow> Inr []
      | Json_elements_non_objects \<Rightarrow> Inl AttributeError)"

text \<open>The slice \<^verbatim>\<open>xs[:n]\<close>; a negative \<open>n\<close> counts from the end.\<close>

definition slice_to :: "'a list \<Rightarrow> int \<Rightarrow> 'a list" where
  "slice_to xs n = (if n < 0 then take (nat (int (length xs) + n)) xs else take (nat n) xs)"

definition overpass_query :: "env \<Rightarrow> real \<Rightarrow> real \<Rightarrow> real \<Rightarrow> string \<Rightarrow> error + amenity_result list" where
  "overpass_query env qlat qlon radius_km amenity =
     (let query = build_query (str_float env) qlat qlon radius_km amenity
      in case requests_post env (OVERPASS_URL env) query of
           Failed f \<Rightarrow> Inl (Transport f)
         | Responded status b \<Rightarrow>
             (case raise_for_status status of
                Inl e \<Rightarrow> Inl e
              | Inr _ \<Rightarrow>
                  (case json_elements b of
                     Inl e \<Rightarrow> Inl e
                   | Inr els \<Rightarrow>
                       (case collect qlat qlon [] els of
                          Inl e \<Rightarrow> Inl e
                        | Inr results \<Rightarrow>
                            Inr (slice_to (sort_key distance_km results) (MAX_RESULTS env))))))"

subsection \<open>The search engine on machine numbers\<close>

text \<open>A Python float that is a finite double or NaN (\<^verbatim>\<open>res.json()\<close> accepts the literal
  \<^verbatim>\<open>NaN\<close>). Comparisons with NaN are false.\<close>

datatype pyfloat = Fin real | NaN

definition le_py :: "pyfloat \<Rightarrow> pyfloat \<Rightarrow> bool" where
  "le_py x y = (case (x, y) of (Fin a, Fin b) \<Rightarrow> a \<le> b | _ \<Rightarrow> False)"

definition the_fin :: "pyfloat \<Rightarrow> real" where
  "the_fin x = (case x of Fin a \<Rightarrow> a | NaN \<Rightarrow> 0)"

record raw_center =
  rc_lat :: "pyfloat option"
  rc_lon :: "pyfloat option"

record raw_element =
  re_type :: "string option"
  re_lat :: "pyfloat option"
  re_lon :: "pyfloat option"
  re_center :: "raw_center option"
  re_tags :: "tags option"

text \<open>The record appended to \<^verbatim>\<open>results\<close>, its keys prefixed.\<close>

record float_result =
  fr_name :: string
  fr_address :: string
  fr_contact :: string
  fr_lat :: pyfloat
  fr_lon :: pyfloat
  fr_distance_km :: pyfloat

text \<open>\<open>fe_sorted_with_nan\<close> is what the builtin \<^verbatim>\<open>sorted\<close> returns for a list with a NaN
  key: which permutation that is depends on the sorting algorithm of the interpreter.\<close>

record float_env =
  fe_OVERPASS_URL :: string
  fe_MAX_RESULTS :: int
  fe_requests_post :: "string \<Rightarrow> string \<Rightarrow> raw_element post_result"
  fe_str_float :: "pyfloat \<Rightarrow> string"
  fe_sorted_with_nan :: "float_result list \<Rightarrow> float_result list"

text \<open>\<^verbatim>\<open>haversine_km\<close> on such floats: a NaN argument makes every later value NaN, and
  neither \<^verbatim>\<open>math.sqrt\<close> nor \<^verbatim>\<open>math.atan2\<close> raises on NaN.\<close>

definition haversine_km_py :: "pyfloat \<Rightarrow> pyfloat \<Rightarrow> pyfloat \<Rightarrow> pyfloat \<Rightarrow> error + pyfloat" where
  "haversine_km_py lat1 lon1 lat2 lon2 =
     (case (lat1, lon1, lat2, lon2) of
        (Fin a, Fin b, Fin c, Fin d) \<Rightarrow>
          (case haversine_km_float a b c d of Inl e \<Rightarrow> Inl e | Inr x \<Rightarrow> Inr (Fin x))
      | _ \<Rightarrow> Inr NaN)"

definition coords_float :: "raw_element \<Rightarrow> error + (pyfloat option \<times> pyfloat option)" where
  "coords_float el =
     (case re_type el of
        None \<Rightarrow> Inl KeyError
      | Some ty \<Rightarrow>
          if ty = ''node'' then Inr (re_lat el, re_lon el)
          else (case re_center el of
                  None \<Rightarrow> Inr (None, None)
                | Some c \<Rightarrow> Inr (rc_lat c, rc_lon c)))"

definition normalise_float :: "pyfloat \<Rightarrow> pyfloat \<Rightarrow> raw_element \<Rightarrow> error + float_result option" where
  "normalise_float qlat qlon el =
     (let t = (case re_tags el of None \<Rightarrow> Map.empty | Some m \<Rightarrow> m);
          nm = el_name t;
          phone = el_phone t;
          addr = el_address t
      in case coords_float el of
           Inl e \<Rightarrow> Inl e
         | Inr (None, _) \<Rightarrow> Inr None
         | Inr (Some lat_e, None) \<Rightarrow> Inr None
         | Inr (Some lat_e, Some lon_e) \<Rightarrow>
             (case haversine_km_py qlat qlon lat_e lon_e of
                Inl e \<Rightarrow> Inl e
              | Inr d \<Rightarrow>
                  Inr (Some \<lparr>fr_name = nm, fr_address = addr,
                             fr_contact = or_str phone ''Not available'',
                             fr_lat = lat_e, fr_lon = lon_e, fr_distance_km = d\<rparr>)))"

fun collect_float :: "pyfloat \<Rightarrow> pyfloat \<Rightarrow> float_result list \<Rightarrow> raw_element list \<Rightarrow> error + float_result list" where
  "collect_float qlat qlon results [] = Inr results"
| "collect_float qlat qlon results (el # els) =
     (case normalise_float qlat qlon el of
        Inl e \<Rightarrow> Inl e
      | Inr None \<Rightarrow> collect_float qlat qlon results els
      | Inr (Some r) \<Rightarrow> collect_float qlat qlon (results @ [r]) els)"

text \<open>\<^verbatim>\<open>sorted(results, key=...)\<close>: a stable sort when the keys are numbers.\<close>

definition py_sorted :: "(float_result list \<Rightarrow> float_result list) \<Rightarrow> float_result list \<Rightarrow> float_result list" where
  "py_sorted with_nan rs =
     (if list_all (\<lambda>r. fr_distance_km r \<noteq> NaN) rs
      then sort_key (\<lambda>r. the_fin (fr_distance_km r)) rs
      else with_nan rs)"

text \<open>\<^verbatim>\<open>int(radius_km * 1000)\<close> raises ValueError on NaN.\<close>

definition overpass_query_float :: "float_env \<Rightarrow> pyfloat \<Rightarrow> pyfloat \<Rightarrow> pyfloat \<Rightarrow> string \<Rightarrow> error + float_result list" where
  "overpass_query_float fenv qlat qlon radius_km amenity =
     (case radius_km of
        NaN \<Rightarrow> Inl ValueError
      | Fin radius \<Rightarrow>
          (let query = build_query (fe_str_float fenv) qlat qlon radius amenity
           in case fe_requests_post fenv (fe_OVERPASS_URL fenv) query of
                Failed f \<Rightarrow> Inl (Transport f)
              | Responded status b \<Rightarrow>
                  (case raise_for_status status of
                     Inl e \<Rightarrow> Inl e
                   | Inr _ \<Rightarrow>
                       (case json_elements b of
                          Inl e \<Rightarrow> Inl e
                        | Inr els \<Rightarrow>
                            (case collect_float qlat qlon [] els of
                               Inl e \<Rightarrow> Inl e
                             | Inr results \<Rightarrow>
                                 Inr (slice_to (py_sorted (fe_sorted_with_nan fenv) results)
                                        (fe_MAX_RESULTS fenv)))))))"

subsection \<open>Notions of the specification\<close>

text \<open>The records one element contributes to \<^verbatim>\<open>results\<close> (none or one), and the records
  of a whole element list, in the order of that list.\<close>

definition emitted :: "real \<Rightarrow> real \<Rightarrow> element \<Rightarrow> amenity_result list" where
  "emitted qlat qlon el = (case normalise qlat qlon el of Inr (Some r) \<Rightarrow> [r] | _ \<Rightarrow> [])"

definition normalised :: "real \<Rightarrow> real \<Rightarrow> element list \<Rightarrow> amenity_result list" where
  "normalised qlat qlon els = concat (map (emitted qlat qlon) els)"

text \<open>The element list of the response the backend gives to the query of this call.\<close>

definition backend_elements :: "env \<Rightarrow> real \<Rightarrow> real \<Rightarrow> real \<Rightarrow> string \<Rightarrow> element list" where
  "backend_elements env qlat qlon radius_km amenity =
     (case requests_post env (OVERPASS_URL env)
             (build_query (str_float env) qlat qlon radius_km amenity) of
        Responded status (Json_object (Some els)) \<Rightarrow> els
      | _ \<Rightarrow> [])"

text \<open>An environment whose backend answers every request with \<open>r\<close>.\<close>

definition with_response :: "env \<Rightarrow> element post_result \<Rightarrow> env" where
  "with_response env r = env\<lparr>requests_post := (\<lambda>url data. r)\<rparr>"

text \<open>The same two notions on machine numbers.\<close>

definition emitted_float :: "pyfloat \<Rightarrow> pyfloat \<Rightarrow> raw_element \<Rightarrow> float_result list" where
  "emitted_float qlat qlon el =
     (case normalise_float qlat qlon el of Inr (Some r) \<Rightarrow> [r] | _ \<Rightarrow> [])"

definition normalised_float :: "pyfloat \<Rightarrow> pyfloat \<Rightarrow> raw_element list \<Rightarrow> float_result list" where
  "normalised_float qlat qlon els = concat (map (emitted_float qlat qlon) els)"

definition backend_elements_float :: "float_env \<Rightarrow> pyfloat \<Rightarrow> pyfloat \<Rightarrow> real \<Rightarrow> string \<Rightarrow> raw_element list" where
  "backend_elements_float fenv qlat qlon radius amenity =
     (case fe_requests_post fenv (fe_OVERPASS_URL fenv)
             (build_query (fe_str_float fenv) qlat qlon radius amenity) of
        Responded status (Json_object (Some els)) \<Rightarrow> els
      | _ \<Rightarrow> [])"

text \<open>The backend as a state: the answers it will give to the requests to come, in order
  (nothing left: unreachable). \<^verbatim>\<open>overpass_query\<close> has one call of \<^verbatim>\<open>requests.post\<close>, outside
  of any loop and of any handler, so it takes the first answer and leaves the others.\<close>

definition overpass_query_session ::
  "env \<Rightarrow> element post_result list \<Rightarrow> real \<Rightarrow> real \<Rightarrow> real \<Rightarrow> string
     \<Rightarrow> (error + amenity_result list) \<times> element post_result list" where
  "overpass_query_session env answers qlat qlon radius_km amenity =
     (case answers of
        [] \<Rightarrow> (overpass_query (with_response env (Failed Unreachable)) qlat qlon radius_km amenity, [])
      | a # rest \<Rightarrow> (overpass_query (with_response env a) qlat qlon radius_km amenity, rest))"




text \<open>The effective coordinate in the words of the specification: the element's own
  coordinate for a node, the centroid otherwise, resolved when both parts are there.\<close>

definition effective_coordinate :: "element \<Rightarrow> (real \<times> real) option" where
  "effective_coordinate el =
     (if el_type el = Some ''node''
      then (case (el_lat el, el_lon el) of (Some a, Some b) \<Rightarrow> Some (a, b) | _ \<Rightarrow> None)
      else (case el_center el of
              None \<Rightarrow> None
            | Some c \<Rightarrow> (case (c_lat c, c_lon c) of (Some a, Some b) \<Rightarrow> Some (a, b) | _ \<Rightarrow> None)))"

text \<open>The tag bag of an element, and the field rules in the words of the specification:
  a key counts when it is present with a non-empty value.\<close>

definition tags_of :: "element \<Rightarrow> tags" where
  "tags_of el = (case el_tags el of None \<Rightarrow> Map.empty | Some m \<Rightarrow> m)"

definition present_nonempty :: "tags \<Rightarrow> string \<Rightarrow> bool" where
  "present_nonempty t k = (t k \<noteq> None \<and> t k \<noteq> Some [])"

definition first_present_nonempty :: "tags \<Rightarrow> string list \<Rightarrow> string option" where
  "first_present_nonempty t ks =
     (case List.find (present_nonempty t) ks of None \<Rightarrow> None | Some k \<Rightarrow> t k)"

definition present_parts :: "tags \<Rightarrow> string list \<Rightarrow> string list" where
  "present_parts t ks = map (\<lambda>k. the (t k)) (filter (present_nonempty t) ks)"


subsection \<open>Sample data\<close>

definition far_clinic :: element where
  "far_clinic =
     \<lparr>el_type = Some ''node'', el_lat = Some 0, el_lon = Some 180, el_center = None,
      el_tags = Some [''name'' \<mapsto> ''Far Clinic'']\<rparr>"

definition near_trust :: element where
  "near_trust =
     \<lparr>el_type = Some ''way'', el_lat = None, el_lon = None,
      el_center = Some \<lparr>c_lat = Some 0, c_lon = Some 0\<rparr>,
      el_tags = Some [''operator'' \<mapsto> ''Near Trust'', ''addr:city'' \<mapsto> ''Null Island'',
                      ''addr:street'' \<mapsto> ''Main St'']\<rparr>"

definition way_no_center :: element where
  "way_no_center =
     \<lparr>el_type = Some ''way'', el_lat = None, el_lon = None, el_center = None,
      el_tags = Some [''name'' \<mapsto> ''No Centre'']\<rparr>"

definition bare_node :: element where
  "bare_node =
     \<lparr>el_type = Some ''node'', el_lat = Some 0, el_lon = Some 0, el_center = None,
      el_tags = None\<rparr>"

definition empty_name_node :: element where
  "empty_name_node =
     \<lparr>el_type = Some ''node'', el_lat = Some 0, el_lon = Some 0, el_center = None,
      el_tags = Some [''name'' \<mapsto> '''']\<rparr>"

definition untyped_element :: element where
  "untyped_element =
     \<lparr>el_type = None, el_lat = Some 0, el_lon = Some 0, el_center = None, el_tags = None\<rparr>"

text \<open>Elements and records on machine numbers.\<close>

definition origin_node :: raw_element where
  "origin_node =
     \<lparr>re_type = Some ''node'', re_lat = Some (Fin 0), re_lon = Some (Fin 0), re_center = None,
      re_tags = None\<rparr>"

definition origin_way :: raw_element where
  "origin_way =
     \<lparr>re_type = Some ''way'', re_lat = None, re_lon = None,
      re_center = Some \<lparr>rc_lat = Some (Fin 0), rc_lon = Some (Fin 0)\<rparr>,
      re_tags = Some [''name'' \<mapsto> ''Centre'']\<rparr>"

definition nan_node :: raw_element where
  "nan_node =
     \<lparr>re_type = Some ''node'', re_lat = Some NaN, re_lon = Some (Fin 0), re_center = None,
      re_tags = None\<rparr>"

definition zero_result :: float_result where
  "zero_result =
     \<lparr>fr_name = ''Unknown'', fr_address = ''Not available'', fr_contact = ''Not available'',
      fr_lat = Fin 0, fr_lon = Fin 0, fr_distance_km = Fin 0\<rparr>"

definition centre_result :: float_result where
  "centre_result =
     \<lparr>fr_name = ''Centre'', fr_address = ''Not available'', fr_contact = ''Not available'',
      fr_lat = Fin 0, fr_lon = Fin 0, fr_distance_km = Fin 0\<rparr>"

definition nan_result :: float_result where
  "nan_result =
     \<lparr>fr_name = ''Unknown'', fr_address = ''Not available'', fr_contact = ''Not available'',
      fr_lat = NaN, fr_lon = Fin 0, fr_distance_km = NaN\<rparr>"

definition float_sample_env :: "raw_element list \<Rightarrow> float_env" where
  "float_sample_env els =
     \<lparr>fe_OVERPASS_URL = ''https://overpass-api.de/api/interpreter'', fe_MAX_RESULTS = 6,
      fe_requests_post = (\<lambda>url data. Responded 200 (Json_object (Some els))),
      fe_str_float = (\<lambda>x. ''0.0''),
      fe_sorted_with_nan = (\<lambda>rs. rs)\<rparr>"

definition sample_elements :: "element list" where
  "sample_elements = [far_clinic, near_trust, way_no_center, bare_node]"

definition sample_env :: env where
  "sample_env =
     \<lparr>OVERPASS_URL = ''https://overpass-api.de/api/interpreter'', MAX_RESULTS = 6,
      requests_post = (\<lambda>url data. Responded 200 (Json_object (Some sample_elements))),
      str_float = (\<lambda>x. ''0.0'')\<rparr>"


definition small_env :: env where
  "small_env = sample_env\<lparr>MAX_RESULTS := 2\<rparr>"

definition far_result :: amenity_result where
  "far_result =
     \<lparr>name = ''Far Clinic'', address = ''Not available'', contact = ''Not available'',
      lat = 0, lon = 180, distance_km = 6371 * pi\<rparr>"

definition near_result :: amenity_result where
  "near_result =
     \<lparr>name = ''Near Trust'', address = ''Main St, Null Island'', contact = ''Not available'',
      lat = 0, lon = 0, distance_km = 0\<rparr>"

definition bare_result :: amenity_result where
  "bare_result =
     \<lparr>name = ''Unknown'', address = ''Not available'', contact = ''Not available'',
      lat = 0, lon = 0, distance_km = 0\<rparr>"

definition sample_results :: "amenity_result list" where
  "sample_results = [near_result, bare_result, far_result]"

section \<open>Properties\<close>

subsection \<open>Distance calculator\<close>

lemma radians_diff: "radians (x - y) = radians x - radians y"
  by (simp add: radians_def left_diff_distrib)

lemma radians_minus: "radians (- x) = - radians x"
  by (simp add: radians_def)

lemma hav_a_sym: "hav_a lat1 lon1 lat2 lon2 = hav_a lat2 lon2 lat1 lon1"
proof -
  have 1: "radians (lat1 - lat2) = - radians (lat2 - lat1)"
    by (simp add: radians_diff)
  have 2: "radians (lon1 - lon2) = - radians (lon2 - lon1)"
    by (simp add: radians_diff)
  show ?thesis
    unfolding hav_a_def Let_def 1 2 by (simp add: mult.commute)
qed

text \<open>
  C7. The distance is symmetric: swapping the two points gives the same outcome of
  \<open>haversine_km\<close>, the same distance (in exact arithmetic the two values are equal,
  so they agree within every tolerance).
\<close>

theorem haversine_km_symmetric:
  "haversine_km lat1 lon1 lat2 lon2 = haversine_km lat2 lon2 lat1 lon1"
  unfolding haversine_km_def by (simp add: hav_a_sym)

subsection \<open>Distance calculator on doubles\<close>


lemma rnd_0: "rnd 0 = 0"
  by (simp add: rnd_def)






lemma rnd_1: "rnd 1 = 1"
proof -
  have q: "quantum 1 = 2 powr (- 52)" by (simp add: quantum_def)
  have p: "(2::real) powr (- 52) = 1 / 2 ^ 52" by (simp add: powr_minus powr_numeral field_simps)
  have r: "1 / quantum 1 = real_of_int (2 ^ 52)" by (simp add: q p)
  have e: "round_even (1 / quantum 1) = 2 ^ 52"
    unfolding r by (simp add: round_even_def Let_def)
  have "rnd 1 = quantum 1 * real_of_int (2 ^ 52)"
    unfolding rnd_def e by simp
  also have "\<dots> = 1" by (simp add: q p)
  finally show ?thesis .
qed

lemma fradians_0: "fradians 0 = 0"
  by (simp add: fradians_def rnd_0)



lemma haversine_km_float_a_0:
  "hav_a_float lat1 lon1 lat2 lon2 = 0 \<Longrightarrow> haversine_km_float lat1 lon1 lat2 lon2 = Inr 0"
  by (simp add: haversine_km_float_def sqrt_float_def rnd_0 rnd_1 atan2_def)




subsection \<open>Search engine: ranking, truncation, coordinates, failures\<close>

lemma collect_Inr:
  "collect qlat qlon acc els = Inr rs \<Longrightarrow> rs = acc @ normalised qlat qlon els"
proof (induction els arbitrary: acc)
  case Nil
  then show ?case by (simp add: normalised_def)
next
  case (Cons el els)
  show ?case
  proof (cases "normalise qlat qlon el")
    case (Inl e)
    with Cons.prems show ?thesis by simp
  next
    case (Inr v)
    show ?thesis
    proof (cases v)
      case None
      with Inr Cons.prems have "collect qlat qlon acc els = Inr rs" by simp
      from Cons.IH [OF this] show ?thesis
        using Inr None by (simp add: normalised_def emitted_def)
    next
      case (Some r)
      with Inr Cons.prems have "collect qlat qlon (acc @ [r]) els = Inr rs" by simp
      from Cons.IH [OF this] show ?thesis
        using Inr Some by (simp add: normalised_def emitted_def)
    qed
  qed
qed

lemma collect_drop:
  "normalise qlat qlon el = Inr None \<Longrightarrow>
   collect qlat qlon acc (xs @ el # ys) = collect qlat qlon acc (xs @ ys)"
  by (induction xs arbitrary: acc) (auto split: sum.splits option.splits)

lemma overpass_query_Inr:
  assumes "overpass_query env qlat qlon radius_km amenity = Inr rs"
  shows "rs = slice_to (sort_key distance_km
                 (normalised qlat qlon (backend_elements env qlat qlon radius_km amenity)))
               (MAX_RESULTS env)"
  using assms
  by (auto simp: overpass_query_def backend_elements_def json_elements_def Let_def normalised_def
           dest!: collect_Inr split: post_result.splits sum.splits body.splits option.splits)

lemma slice_to_take: "\<exists>k. slice_to xs n = take k xs"
  by (auto simp: slice_to_def)

lemma sorted_slice_to: "sorted (map f xs) \<Longrightarrow> sorted (map f (slice_to xs n))"
  by (simp add: slice_to_def take_map [symmetric] sorted_wrt_take)

lemma prefix_filter_slice_to: "prefix (filter P (slice_to xs n)) (filter P xs)"
  by (metis slice_to_take take_is_prefix filter_mono_prefix)

lemma normalise_Some_coord:
  "normalise qlat qlon el = Inr (Some r) \<Longrightarrow> effective_coordinate el = Some (lat r, lon r)"
  by (auto simp: normalise_def coords_def effective_coordinate_def Let_def
           split: option.splits sum.splits if_splits prod.splits)

lemma normalise_unresolved:
  "el_type el \<noteq> None \<Longrightarrow> effective_coordinate el = None \<Longrightarrow> normalise qlat qlon el = Inr None"
  by (auto simp: normalise_def coords_def effective_coordinate_def Let_def
           split: option.splits sum.splits if_splits prod.splits)

lemma set_normalised:
  "r \<in> set (normalised qlat qlon els) \<Longrightarrow> \<exists>el\<in>set els. normalise qlat qlon el = Inr (Some r)"
  by (auto simp: normalised_def emitted_def split: sum.splits option.splits)

lemma set_slice_to: "set (slice_to xs n) \<subseteq> set xs"
  by (auto simp: slice_to_def dest: in_set_takeD)

lemma overpass_query_with_response:
  "overpass_query (with_response env (Responded status (Json_object (Some els)))) qlat qlon radius_km amenity =
     (case raise_for_status status of Inl e \<Rightarrow> Inl e
      | Inr u \<Rightarrow> (case collect qlat qlon [] els of Inl e \<Rightarrow> Inl e
         | Inr results \<Rightarrow> Inr (slice_to (sort_key distance_km results) (MAX_RESULTS env))))"
  by (simp add: overpass_query_def with_response_def json_elements_def split: sum.splits)

text \<open>
  C3. Every record the engine returns carries the effective coordinate of an element of
  the response, both parts resolved (own \<open>lat\<close>/\<open>lon\<close> of a node, \<open>lat\<close>/\<open>lon\<close> of the
  centre otherwise). An element with a type whose effective coordinate lacks a part goes
  through the loop body without an error and without a record, and the outcome of the
  whole query is the outcome for the response without that element.
\<close>

theorem coordinates_resolved:
  "(overpass_query env qlat qlon radius_km amenity = Inr rs \<longrightarrow>
      (\<forall>r\<in>set rs. \<exists>el\<in>set (backend_elements env qlat qlon radius_km amenity).
          effective_coordinate el = Some (lat r, lon r)))
   \<and> (el_type el \<noteq> None \<and> effective_coordinate el = None \<longrightarrow>
        normalise qlat qlon el = Inr None
      \<and> overpass_query (with_response env (Responded status (Json_object (Some (xs @ el # ys)))))
            qlat qlon radius_km amenity
        = overpass_query (with_response env (Responded status (Json_object (Some (xs @ ys)))))
            qlat qlon radius_km amenity)"
proof (intro conjI impI ballI)
  fix r assume ok: "overpass_query env qlat qlon radius_km amenity = Inr rs" and r: "r \<in> set rs"
  let ?els = "backend_elements env qlat qlon radius_km amenity"
  from overpass_query_Inr [OF ok] r
  have "r \<in> set (sort_key distance_km (normalised qlat qlon ?els))"
    using set_slice_to by fastforce
  then have "r \<in> set (normalised qlat qlon ?els)" by simp
  then obtain el where "el \<in> set ?els" "normalise qlat qlon el = Inr (Some r)"
    using set_normalised by blast
  then show "\<exists>el\<in>set ?els. effective_coordinate el = Some (lat r, lon r)"
    using normalise_Some_coord by blast
next
  assume a: "el_type el \<noteq> None \<and> effective_coordinate el = None"
  then show n: "normalise qlat qlon el = Inr None" by (simp add: normalise_unresolved)
  show "overpass_query (with_response env (Responded status (Json_object (Some (xs @ el # ys)))))
            qlat qlon radius_km amenity
        = overpass_query (with_response env (Responded status (Json_object (Some (xs @ ys)))))
            qlat qlon radius_km amenity"
    by (simp only: overpass_query_with_response collect_drop [OF n])
qed

lemma length_slice_to: "0 \<le> n \<Longrightarrow> int (length (slice_to xs n)) \<le> n"
  by (simp add: slice_to_def)

text \<open>
  C2. For a configured maximum that is a count (not negative), whatever the number of
  elements of the response, the engine returns at most \<open>MAX_RESULTS\<close> records, and
  they are the first \<open>MAX_RESULTS\<close> of the sorted sequence.
\<close>

theorem truncation_bound:
  assumes "0 \<le> MAX_RESULTS env"
      and "overpass_query env qlat qlon radius_km amenity = Inr rs"
  shows "int (length rs) \<le> MAX_RESULTS env
       \<and> rs = take (nat (MAX_RESULTS env))
                (sort_key distance_km
                   (normalised qlat qlon (backend_elements env qlat qlon radius_km amenity)))"
  using overpass_query_Inr [OF assms(2)] assms(1)
  by (simp add: slice_to_def)

text \<open>
  C10. A response with a status that \<open>raise_for_status\<close> accepts and a JSON object
  without the field \<open>elements\<close> is no error: the engine returns the empty sequence.
\<close>

theorem missing_elements_field_empty:
  assumes "requests_post env (OVERPASS_URL env)
             (build_query (str_float env) qlat qlon radius_km amenity) = Responded status (Json_object None)"
      and "\<not> (400 \<le> status \<and> status < 600)"
  shows "overpass_query env qlat qlon radius_km amenity = Inr []"
  using assms by (simp add: overpass_query_def raise_for_status_def json_elements_def slice_to_def)

lemma normalise_no_type: "el_type el = None \<Longrightarrow> normalise qlat qlon el = Inl KeyError"
  by (simp add: normalise_def coords_def)

lemma collect_error:
  "el \<in> set els \<Longrightarrow> normalise qlat qlon el = Inl e \<Longrightarrow> \<exists>e'. collect qlat qlon acc els = Inl e'"
proof (induction els arbitrary: acc)
  case Nil
  then show ?case by simp
next
  case (Cons x xs)
  show ?case
  proof (cases "normalise qlat qlon x")
    case (Inl e0)
    then show ?thesis by simp
  next
    case (Inr v)
    with Cons.prems have "el \<in> set xs" by auto
    from Cons.IH [OF this Cons.prems(2)] show ?thesis
      using Inr by (cases v) simp_all
  qed
qed

lemma collect_all_dropped:
  "\<forall>el\<in>set els. normalise qlat qlon el = Inr None \<Longrightarrow> collect qlat qlon acc els = Inr acc"
  by (induction els arbitrary: acc) simp_all

lemma overpass_query_post:
  "requests_post env (OVERPASS_URL env) (build_query (str_float env) qlat qlon radius_km amenity) = p \<Longrightarrow>
   overpass_query env qlat qlon radius_km amenity =
     (case p of
        Failed f \<Rightarrow> Inl (Transport f)
      | Responded status b \<Rightarrow>
          (if 400 \<le> status \<and> status < 600 then Inl (HTTPError status)
           else (case json_elements b of
                   Inl e \<Rightarrow> Inl e
                 | Inr els \<Rightarrow>
                     (case collect qlat qlon [] els of
                        Inl e \<Rightarrow> Inl e
                      | Inr results \<Rightarrow>
                          Inr (slice_to (sort_key distance_km results) (MAX_RESULTS env))))))"
  by (auto simp: overpass_query_def raise_for_status_def split: post_result.splits sum.splits)

lemma post_with_response: "requests_post (with_response env r) url q = r"
  by (simp add: with_response_def)

text \<open>
  C6, amended. A transport failure, a status between 400 and 599, and a body on which
  the processing raises (not JSON, no JSON object, an \<open>elements\<close> value that cannot be
  iterated or that yields items that are no objects, an element without \<open>type\<close>) each
  make the engine fail with one error and no results. A response whose elements are all
  dropped (in particular an empty element list) gives the empty sequence, not an error.
  There is no retry: of the answers the backend would give to successive requests, the
  engine consumes the first one, and a failure is its outcome whatever the next answer
  would be.
\<close>

theorem backend_failure_propagates:
  assumes post: "requests_post env (OVERPASS_URL env)
             (build_query (str_float env) qlat qlon radius_km amenity) = p"
  shows "(p = Failed f \<longrightarrow> overpass_query env qlat qlon radius_km amenity = Inl (Transport f))
       \<and> (p = Responded status b \<and> 400 \<le> status \<and> status < 600 \<longrightarrow>
             overpass_query env qlat qlon radius_km amenity = Inl (HTTPError status))
       \<and> (p = Responded status Not_json \<and> \<not> (400 \<le> status \<and> status < 600) \<longrightarrow>
             overpass_query env qlat qlon radius_km amenity = Inl JSONDecodeError)
       \<and> (p = Responded status Json_other \<and> \<not> (400 \<le> status \<and> status < 600) \<longrightarrow>
             overpass_query env qlat qlon radius_km amenity = Inl AttributeError)
       \<and> (p = Responded status Json_elements_not_iterable \<and> \<not> (400 \<le> status \<and> status < 600) \<longrightarrow>
             overpass_query env qlat qlon radius_km amenity = Inl TypeError)
       \<and> (p = Responded status Json_elements_non_objects \<and> \<not> (400 \<le> status \<and> status < 600) \<longrightarrow>
             overpass_query env qlat qlon radius_km amenity = Inl AttributeError)
       \<and> (p = Responded status (Json_object (Some els)) \<and> \<not> (400 \<le> status \<and> status < 600)
            \<and> (\<exists>el\<in>set els. el_type el = None) \<longrightarrow>
             (\<exists>e. overpass_query env qlat qlon radius_km amenity = Inl e))
       \<and> (p = Responded status (Json_object (Some els)) \<and> \<not> (400 \<le> status \<and> status < 600)
            \<and> (\<forall>el\<in>set els. normalise qlat qlon el = Inr None) \<longrightarrow>
             overpass_query env qlat qlon radius_km amenity = Inr [])
       \<and> overpass_query_session env (Failed f # rest) qlat qlon radius_km amenity
            = (Inl (Transport f), rest)
       \<and> (400 \<le> status \<and> status < 600 \<longrightarrow>
             overpass_query_session env (Responded status b # rest) qlat qlon radius_km amenity
               = (Inl (HTTPError status), rest))"
proof -
  note q = overpass_query_post [OF post]
  have 1: "p = Failed f \<longrightarrow> overpass_query env qlat qlon radius_km amenity = Inl (Transport f)"
    using q by simp
  have 2: "p = Responded status b \<and> 400 \<le> status \<and> status < 600 \<longrightarrow>
             overpass_query env qlat qlon radius_km amenity = Inl (HTTPError status)"
    using q by simp
  have 3: "p = Responded status Not_json \<and> \<not> (400 \<le> status \<and> status < 600) \<longrightarrow>
             overpass_query env qlat qlon radius_km amenity = Inl JSONDecodeError"
    using q by (auto simp: json_elements_def)
  have 4: "p = Responded status Json_other \<and> \<not> (400 \<le> status \<and> status < 600) \<longrightarrow>
             overpass_query env qlat qlon radius_km amenity = Inl AttributeError"
    using q by (auto simp: json_elements_def)
  have 5: "p = Responded status Json_elements_not_iterable \<and> \<not> (400 \<le> status \<and> status < 600) \<longrightarrow>
             overpass_query env qlat qlon radius_km amenity = Inl TypeError"
    using q by (auto simp: json_elements_def)
  have 6: "p = Responded status Json_elements_non_objects \<and> \<not> (400 \<le> status \<and> status < 600) \<longrightarrow>
             overpass_query env qlat qlon radius_km amenity = Inl AttributeError"
    using q by (auto simp: json_elements_def)
  have 7: "p = Responded status (Json_object (Some els)) \<and> \<not> (400 \<le> status \<and> status < 600)
            \<and> (\<exists>el\<in>set els. el_type el = None) \<longrightarrow>
             (\<exists>e. overpass_query env qlat qlon radius_km amenity = Inl e)"
  proof (intro impI, elim conjE bexE)
    fix el
    assume p: "p = Responded status (Json_object (Some els))"
      and s: "\<not> (400 \<le> status \<and> status < 600)"
      and el: "el \<in> set els" "el_type el = None"
    from collect_error [OF el(1) normalise_no_type [OF el(2)]]
    obtain e' where "collect qlat qlon [] els = Inl e'" by blast
    with q p s show "\<exists>e. overpass_query env qlat qlon radius_km amenity = Inl e"
      by (auto simp: json_elements_def)
  qed
  have 8: "p = Responded status (Json_object (Some els)) \<and> \<not> (400 \<le> status \<and> status < 600)
            \<and> (\<forall>el\<in>set els. normalise qlat qlon el = Inr None) \<longrightarrow>
             overpass_query env qlat qlon radius_km amenity = Inr []"
    using q by (auto simp: json_elements_def collect_all_dropped slice_to_def)
  have 9: "overpass_query_session env (Failed f # rest) qlat qlon radius_km amenity
            = (Inl (Transport f), rest)"
    by (simp add: overpass_query_session_def overpass_query_post [OF post_with_response])
  have 10: "400 \<le> status \<and> status < 600 \<longrightarrow>
             overpass_query_session env (Responded status b # rest) qlat qlon radius_km amenity
               = (Inl (HTTPError status), rest)"
    by (simp add: overpass_query_session_def overpass_query_post [OF post_with_response])
  show ?thesis
    by (rule conjI [OF 1 conjI [OF 2 conjI [OF 3 conjI [OF 4 conjI [OF 5 conjI [OF 6
          conjI [OF 7 conjI [OF 8 conjI [OF 9 10]]]]]]]]])
qed

subsection \<open>Search engine on machine numbers: ranking\<close>

lemma collect_float_Inr:
  "collect_float qlat qlon acc els = Inr rs \<Longrightarrow> rs = acc @ normalised_float qlat qlon els"
proof (induction els arbitrary: acc)
  case Nil
  then show ?case by (simp add: normalised_float_def)
next
  case (Cons el els)
  show ?case
  proof (cases "normalise_float qlat qlon el")
    case (Inl e)
    with Cons.prems show ?thesis by simp
  next
    case (Inr v)
    show ?thesis
    proof (cases v)
      case None
      with Inr Cons.prems have "collect_float qlat qlon acc els = Inr rs" by simp
      from Cons.IH [OF this] show ?thesis
        using Inr None by (simp add: normalised_float_def emitted_float_def)
    next
      case (Some r)
      with Inr Cons.prems have "collect_float qlat qlon (acc @ [r]) els = Inr rs" by simp
      from Cons.IH [OF this] show ?thesis
        using Inr Some by (simp add: normalised_float_def emitted_float_def)
    qed
  qed
qed

lemma overpass_query_float_Inr:
  assumes "overpass_query_float fenv qlat qlon (Fin radius) amenity = Inr rs"
  shows "rs = slice_to (py_sorted (fe_sorted_with_nan fenv)
                 (normalised_float qlat qlon (backend_elements_float fenv qlat qlon radius amenity)))
               (fe_MAX_RESULTS fenv)"
  using assms
  by (auto simp: overpass_query_float_def backend_elements_float_def json_elements_def Let_def
        normalised_float_def
      dest!: collect_float_Inr split: post_result.splits sum.splits body.splits option.splits)

lemma le_py_Fin: "x \<noteq> NaN \<Longrightarrow> y \<noteq> NaN \<Longrightarrow> le_py x y \<longleftrightarrow> the_fin x \<le> the_fin y"
  by (cases x; cases y) (simp_all add: le_py_def the_fin_def)

lemma the_fin_eq: "x \<noteq> NaN \<Longrightarrow> the_fin x = a \<longleftrightarrow> x = Fin a"
  by (cases x) (simp_all add: the_fin_def)

lemma Fin_the_fin: "x \<noteq> NaN \<Longrightarrow> Fin (the_fin x) = x"
  by (cases x) (simp_all add: the_fin_def)

lemma dist_eq_Fin_iff:
  "fr_distance_km r \<noteq> NaN \<Longrightarrow> fr_distance_km r = Fin a \<longleftrightarrow> the_fin (fr_distance_km r) = a"
  using the_fin_eq [of "fr_distance_km r" a] by simp

lemma py_sorted_numbers:
  "\<forall>r\<in>set rs. fr_distance_km r \<noteq> NaN \<Longrightarrow>
   py_sorted w rs = sort_key (\<lambda>r. the_fin (fr_distance_km r)) rs"
  by (simp add: py_sorted_def list_all_iff)

text \<open>
  C1, amended. On machine numbers: whenever the engine returns a sequence and no
  distance computed for the response is NaN, the \<open>distance_km\<close> values are
  non-decreasing by index in the order of Python, and for every distance the returned
  records with that distance are an initial part of the records with that distance
  taken in the order of the response's element list: ties keep the original order.
\<close>

theorem ranking_sorted_stable_float:
  assumes ok: "overpass_query_float fenv qlat qlon (Fin radius) amenity = Inr rs"
      and num: "\<forall>r\<in>set (normalised_float qlat qlon
                          (backend_elements_float fenv qlat qlon radius amenity)).
                 fr_distance_km r \<noteq> NaN"
  shows "(\<forall>i j. i \<le> j \<and> j < length rs \<longrightarrow>
             le_py (fr_distance_km (rs ! i)) (fr_distance_km (rs ! j)))
       \<and> (\<forall>d. prefix (filter (\<lambda>r. fr_distance_km r = d) rs)
                 (filter (\<lambda>r. fr_distance_km r = d)
                    (normalised_float qlat qlon
                       (backend_elements_float fenv qlat qlon radius amenity))))"
proof -
  let ?all = "normalised_float qlat qlon (backend_elements_float fenv qlat qlon radius amenity)"
  let ?key = "\<lambda>r. the_fin (fr_distance_km r)"
  have rs: "rs = slice_to (sort_key ?key ?all) (fe_MAX_RESULTS fenv)"
    using overpass_query_float_Inr [OF ok] py_sorted_numbers [OF num] by simp
  have sub: "set rs \<subseteq> set ?all"
    unfolding rs using set_slice_to [of "sort_key ?key ?all"] by simp
  have s: "sorted (map ?key rs)"
    unfolding rs by (rule sorted_slice_to) (rule sorted_sort_key)
  have n: "\<forall>i j. i \<le> j \<and> j < length rs \<longrightarrow>
             le_py (fr_distance_km (rs ! i)) (fr_distance_km (rs ! j))"
  proof (intro allI impI)
    fix i j assume ij: "i \<le> j \<and> j < length rs"
    then have "map ?key rs ! i \<le> map ?key rs ! j"
      using s by (simp add: sorted_iff_nth_mono del: nth_map)
    then have k: "?key (rs ! i) \<le> ?key (rs ! j)" using ij by simp
    have "rs ! i \<in> set ?all" "rs ! j \<in> set ?all" using ij sub by auto
    then have "fr_distance_km (rs ! i) \<noteq> NaN" "fr_distance_km (rs ! j) \<noteq> NaN"
      using num by blast+
    then show "le_py (fr_distance_km (rs ! i)) (fr_distance_km (rs ! j))"
      using k by (simp add: le_py_Fin)
  qed
  have t: "prefix (filter (\<lambda>r. fr_distance_km r = d) rs)
                  (filter (\<lambda>r. fr_distance_km r = d) ?all)" for d
  proof (cases d)
    case (Fin a)
    have e1: "filter (\<lambda>r. fr_distance_km r = d) rs = filter (\<lambda>r. ?key r = a) rs"
    proof (rule filter_cong [OF refl])
      fix r assume "r \<in> set rs"
      with sub num have "fr_distance_km r \<noteq> NaN" by blast
      then show "(fr_distance_km r = d) = (?key r = a)" unfolding Fin by (rule dist_eq_Fin_iff)
    qed
    have e2: "filter (\<lambda>r. fr_distance_km r = d) ?all = filter (\<lambda>r. ?key r = a) ?all"
    proof (rule filter_cong [OF refl])
      fix r assume "r \<in> set ?all"
      with num have "fr_distance_km r \<noteq> NaN" by blast
      then show "(fr_distance_km r = d) = (?key r = a)" unfolding Fin by (rule dist_eq_Fin_iff)
    qed
    have "prefix (filter (\<lambda>r. ?key r = a) rs) (filter (\<lambda>r. ?key r = a) (sort_key ?key ?all))"
      unfolding rs by (rule prefix_filter_slice_to)
    then show ?thesis unfolding e1 e2 by (simp add: sort_key_stable)
  next
    case NaN
    have "filter (\<lambda>r. fr_distance_km r = d) rs = []"
      using sub num by (auto simp: NaN filter_empty_conv)
    then show ?thesis by simp
  qed
  from n t show ?thesis by blast
qed

subsection \<open>Field derivation\<close>

lemma truthy_iff: "truthy v \<longleftrightarrow> v \<noteq> None \<and> v \<noteq> Some []"
  by (cases v) (simp_all add: truthy_def)

lemma el_name_spec:
  "el_name t = (case first_present_nonempty t [''name'', ''operator''] of
                  None \<Rightarrow> ''Unknown'' | Some s \<Rightarrow> s)"
  by (auto simp: el_name_def first_present_nonempty_def present_nonempty_def py_or_def or_str_def
        truthy_iff split: option.splits)

lemma el_contact_spec:
  "or_str (el_phone t) ''Not available'' =
     (case first_present_nonempty t [''phone'', ''contact:phone'', ''telephone''] of
        None \<Rightarrow> ''Not available'' | Some s \<Rightarrow> s)"
  by (auto simp: el_phone_def first_present_nonempty_def present_nonempty_def py_or_def or_str_def
        truthy_iff split: option.splits)

lemma map_filter_present:
  "List.map_filter (\<lambda>k. if truthy (t k) then t k else None) ks = present_parts t ks"
  by (induction ks) (auto simp: List.map_filter_simps present_parts_def present_nonempty_def truthy_iff)

lemma present_parts_nonempty: "s \<in> set (present_parts t ks) \<Longrightarrow> s \<noteq> []"
  by (auto simp: present_parts_def present_nonempty_def)

lemma join_empty_iff: "\<forall>s\<in>set ps. s \<noteq> [] \<Longrightarrow> join sep ps = [] \<longleftrightarrow> ps = []"
  by (induction sep ps rule: join.induct) simp_all

lemma el_address_spec:
  "el_address t =
     (let parts = present_parts t [''addr:street'', ''addr:housenumber'', ''addr:city'',
                                   ''addr:postcode'', ''addr:state'', ''addr:country'']
      in if parts \<noteq> [] then join '', '' parts
         else (case t ''addr:full'' of None \<Rightarrow> ''Not available'' | Some s \<Rightarrow> s))"
proof -
  let ?ps = "present_parts t addr_keys"
  have "\<forall>s\<in>set ?ps. s \<noteq> []" using present_parts_nonempty by blast
  then have "join '', '' ?ps = [] \<longleftrightarrow> ?ps = []" by (rule join_empty_iff)
  then have "el_address t =
     (if ?ps \<noteq> [] then join '', '' ?ps
      else (case t ''addr:full'' of None \<Rightarrow> ''Not available'' | Some s \<Rightarrow> s))"
    by (simp add: el_address_def addr_parts_def map_filter_present Let_def)
  then show ?thesis by (simp only: addr_keys_def Let_def)
qed

lemma el_name_absent: "t ''name'' = None \<Longrightarrow> t ''operator'' = None \<Longrightarrow> el_name t = ''Unknown''"
  by (simp add: el_name_def py_or_def or_str_def truthy_def)

lemma el_contact_absent:
  "t ''phone'' = None \<Longrightarrow> t ''contact:phone'' = None \<Longrightarrow> t ''telephone'' = None \<Longrightarrow>
   or_str (el_phone t) ''Not available'' = ''Not available''"
  by (simp add: el_phone_def py_or_def or_str_def truthy_def)

lemma el_address_absent:
  "\<forall>k\<in>set [''addr:street'', ''addr:housenumber'', ''addr:city'',
             ''addr:postcode'', ''addr:state'', ''addr:country'']. t k = None \<Longrightarrow>
   t ''addr:full'' = None \<Longrightarrow> el_address t = ''Not available''"
  by (simp add: el_address_def addr_parts_def addr_keys_def List.map_filter_simps truthy_def)

lemma normalise_fields:
  "normalise qlat qlon el = Inr (Some r) \<Longrightarrow>
     name r = el_name (tags_of el) \<and> address r = el_address (tags_of el)
   \<and> contact r = or_str (el_phone (tags_of el)) ''Not available''"
  by (auto simp: normalise_def tags_of_def Let_def split: sum.splits option.splits prod.splits)

text \<open>
  C5, amended. For an element with a resolved coordinate: without the tags \<open>name\<close> and
  \<open>operator\<close> the name is "Unknown"; without the three phone keys the contact is
  "Not available"; without the six address keys and \<open>addr:full\<close> the address is
  "Not available". In general the name is the value of the first of name, operator that is
  present and not empty, the contact the value of the first of the three phone keys that
  is present and not empty, and the address the present and non-empty address components
  joined by ", " in the fixed order; when no component is present and non-empty, the
  address is the value of \<open>addr:full\<close> if that key is present, else "Not available".
\<close>

theorem fallback_fields:
  assumes "normalise qlat qlon el = Inr (Some r)"
  shows "(tags_of el ''name'' = None \<and> tags_of el ''operator'' = None \<longrightarrow> name r = ''Unknown'')
       \<and> (tags_of el ''phone'' = None \<and> tags_of el ''contact:phone'' = None
            \<and> tags_of el ''telephone'' = None \<longrightarrow> contact r = ''Not available'')
       \<and> ((\<forall>k\<in>set [''addr:street'', ''addr:housenumber'', ''addr:city'',
                    ''addr:postcode'', ''addr:state'', ''addr:country'']. tags_of el k = None)
            \<and> tags_of el ''addr:full'' = None \<longrightarrow> address r = ''Not available'')
       \<and> name r = (case first_present_nonempty (tags_of el) [''name'', ''operator''] of
                     None \<Rightarrow> ''Unknown'' | Some s \<Rightarrow> s)
       \<and> contact r = (case first_present_nonempty (tags_of el)
                              [''phone'', ''contact:phone'', ''telephone''] of
                        None \<Rightarrow> ''Not available'' | Some s \<Rightarrow> s)
       \<and> address r =
           (let parts = present_parts (tags_of el)
                          [''addr:street'', ''addr:housenumber'', ''addr:city'',
                           ''addr:postcode'', ''addr:state'', ''addr:country'']
            in if parts \<noteq> [] then join '', '' parts
               else (case tags_of el ''addr:full'' of None \<Rightarrow> ''Not available'' | Some s \<Rightarrow> s))"
proof -
  note f = normalise_fields [OF assms]
  have 1: "tags_of el ''name'' = None \<and> tags_of el ''operator'' = None \<longrightarrow> name r = ''Unknown''"
    using f by (simp add: el_name_absent)
  have 2: "tags_of el ''phone'' = None \<and> tags_of el ''contact:phone'' = None
            \<and> tags_of el ''telephone'' = None \<longrightarrow> contact r = ''Not available''"
    using f by (simp add: el_contact_absent)
  have 3: "(\<forall>k\<in>set [''addr:street'', ''addr:housenumber'', ''addr:city'',
                    ''addr:postcode'', ''addr:state'', ''addr:country'']. tags_of el k = None)
            \<and> tags_of el ''addr:full'' = None \<longrightarrow> address r = ''Not available''"
  proof
    assume a: "(\<forall>k\<in>set [''addr:street'', ''addr:housenumber'', ''addr:city'',
                    ''addr:postcode'', ''addr:state'', ''addr:country'']. tags_of el k = None)
            \<and> tags_of el ''addr:full'' = None"
    have "el_address (tags_of el) = ''Not available''"
      by (rule el_address_absent [OF conjunct1 [OF a] conjunct2 [OF a]])
    with f show "address r = ''Not available''" by simp
  qed
  have 4: "name r = (case first_present_nonempty (tags_of el) [''name'', ''operator''] of
                     None \<Rightarrow> ''Unknown'' | Some s \<Rightarrow> s)"
    using f by (simp only: el_name_spec)
  have 5: "contact r = (case first_present_nonempty (tags_of el)
                              [''phone'', ''contact:phone'', ''telephone''] of
                        None \<Rightarrow> ''Not available'' | Some s \<Rightarrow> s)"
    using f by (simp only: el_contact_spec)
  have 6: "address r =
           (let parts = present_parts (tags_of el)
                          [''addr:street'', ''addr:housenumber'', ''addr:city'',
                           ''addr:postcode'', ''addr:state'', ''addr:country'']
            in if parts \<noteq> [] then join '', '' parts
               else (case tags_of el ''addr:full'' of None \<Rightarrow> ''Not available'' | Some s \<Rightarrow> s))"
    using f by (simp only: el_address_spec)
  show ?thesis by (rule conjI [OF 1 conjI [OF 2 conjI [OF 3 conjI [OF 4 conjI [OF 5 6]]]]])
qed

subsection \<open>Query construction\<close>


lemma quantum_binade:
  assumes "2 ^ k \<le> \<bar>x\<bar>" "\<bar>x\<bar> < 2 ^ Suc k"
  shows "quantum x = 2 ^ k / 2 ^ 52"
proof -
  have "0 < (2::real) ^ k" by simp
  with assms(1) have pos: "0 < \<bar>x\<bar>" by linarith
  have "2 powr real_of_int (int k) \<le> \<bar>x\<bar>" "\<bar>x\<bar> < 2 powr (real_of_int (int k) + 1)"
    using assms by (simp_all add: powr_realpow powr_add)
  then have "\<lfloor>log 2 \<bar>x\<bar>\<rfloor> = int k"
    using pos by (simp add: floor_log_eq_powr_iff)
  then show ?thesis
    by (simp add: quantum_def powr_diff powr_realpow powr_numeral)
qed


text \<open>The double nearest to 4.35 times 1000 rounds up to 4350; the exact product is below.\<close>

lemma rnd_4_35_times_1000:
  "py_int (rnd (2448832297382707 / 2 ^ 49 * 1000)) = 4350
   \<and> py_int (2448832297382707 / 2 ^ 49 * 1000) = 4349"
proof
  define v :: real where "v = 2448832297382707 / 2 ^ 49 * 1000"
  have v: "v = 306104037172838375 / 70368744177664" by (simp add: v_def)
  have q: "quantum v = 2 ^ 12 / 2 ^ 52"
    by (rule quantum_binade) (simp_all add: v)
  have r: "v / quantum v = 306104037172838375 / 64"
    unfolding q by (simp add: v)
  have e: "round_even (v / quantum v) = 4782875580825600"
    unfolding r by (simp add: round_even_def Let_def)
  have "v \<noteq> 0" by (simp add: v)
  then have "rnd v = quantum v * real_of_int (round_even (v / quantum v))"
    by (simp add: rnd_def)
  also have "\<dots> = quantum v * real_of_int 4782875580825600"
    by (simp only: e)
  also have "\<dots> = 4350"
    by (simp add: q)
  finally have "rnd v = 4350" .
  then show "py_int (rnd (2448832297382707 / 2 ^ 49 * 1000)) = 4350"
    unfolding v_def [symmetric] by (simp add: py_int_def)
  show "py_int (2448832297382707 / 2 ^ 49 * 1000) = 4349" by (simp add: py_int_def)
qed









subsection \<open>The haversine term in exact arithmetic\<close>

text \<open>In exact arithmetic the haversine term lies between 0 and 1, so neither square root
  of \<open>haversine_km\<close> gets a negative argument. Nothing is said here about rounded
  floating-point evaluation.\<close>

lemma sin_half_sq: "(sin (x / 2))\<^sup>2 = (1 - cos x) / 2" for x :: real
  using cos_double_sin [of "x / 2"] by simp

lemma hav_arith_pos:
  fixes c t u v :: real
  assumes "0 \<le> t" "t \<le> c" "(1 - u) / 2 + c = (1 + v) / 2" "u \<le> 1" "v \<le> 1"
  shows "0 \<le> (1 - u) / 2 + t \<and> (1 - u) / 2 + t \<le> 1"
proof
  show "0 \<le> (1 - u) / 2 + t" using assms by argo
  show "(1 - u) / 2 + t \<le> 1" using assms by argo
qed

lemma hav_arith_neg:
  fixes c t u v :: real
  assumes "t \<le> 0" "c \<le> t" "(1 - u) / 2 + c = (1 + v) / 2" "- 1 \<le> u" "- 1 \<le> v"
  shows "0 \<le> (1 - u) / 2 + t \<and> (1 - u) / 2 + t \<le> 1"
proof
  show "0 \<le> (1 - u) / 2 + t" using assms by argo
  show "(1 - u) / 2 + t \<le> 1" using assms by argo
qed

lemma hav_a_bounds: "0 \<le> hav_a lat1 lon1 lat2 lon2 \<and> hav_a lat1 lon1 lat2 lon2 \<le> 1"
proof -
  define p q s where "p = radians lat1" and "q = radians lat2"
    and "s = (sin (radians (lon2 - lon1) / 2))\<^sup>2"
  have a: "hav_a lat1 lon1 lat2 lon2 = (1 - cos (q - p)) / 2 + cos p * cos q * s"
    by (simp add: hav_a_def Let_def p_def q_def s_def radians_diff sin_half_sq)
  have s0: "0 \<le> s"
    unfolding s_def by simp
  have s1: "s \<le> 1"
    unfolding s_def
    using sin_cos_squared_add [of "radians (lon2 - lon1) / 2"]
          zero_le_power2 [of "cos (radians (lon2 - lon1) / 2)"]
    by linarith
  have cd: "cos (q - p) = cos q * cos p + sin q * sin p" by (rule cos_diff)
  have cs: "cos (p + q) = cos p * cos q - sin p * sin q" by (rule cos_add)
  have e: "(1 - cos (q - p)) / 2 + cos p * cos q = (1 + cos (p + q)) / 2"
    unfolding cd cs by (simp add: field_simps)
  show ?thesis
  proof (cases "0 \<le> cos p * cos q")
    case True
    then have t1: "0 \<le> cos p * cos q * s" and t2: "cos p * cos q * s \<le> cos p * cos q"
      using s0 s1 by (simp_all add: mult_left_le)
    show ?thesis
      unfolding a by (rule hav_arith_pos [OF t1 t2 e]) simp_all
  next
    case False
    then have neg: "cos p * cos q \<le> 0" by simp
    then have t1: "cos p * cos q * s \<le> 0" using s0 by (simp add: mult_nonpos_nonneg)
    have t2: "cos p * cos q \<le> cos p * cos q * s"
      using neg s1 mult_left_mono_neg [of s 1 "cos p * cos q"] by simp
    show ?thesis
      unfolding a by (rule hav_arith_neg [OF t1 t2 e]) simp_all
  qed
qed

lemma haversine_km_exact_defined: "\<exists>d. haversine_km lat1 lon1 lat2 lon2 = Inr d"
  using hav_a_bounds [of lat1 lon1 lat2 lon2]
  by (simp add: haversine_km_def py_sqrt_def Let_def)

subsection \<open>The sample response, evaluated\<close>

lemma haversine_km_same: "haversine_km la lo la lo = Inr 0"
  by (simp add: haversine_km_def hav_a_def py_sqrt_def atan2_def radians_def)

lemma haversine_km_half_turn: "haversine_km 0 0 0 180 = Inr (6371 * pi)"
  by (simp add: haversine_km_def hav_a_def py_sqrt_def atan2_def radians_def)

lemma normalise_far_clinic: "normalise 0 0 far_clinic = Inr (Some far_result)"
  by (simp add: normalise_def coords_def far_clinic_def far_result_def haversine_km_half_turn
        el_name_def el_phone_def el_address_def addr_parts_def addr_keys_def
        List.map_filter_simps truthy_def py_or_def or_str_def)

lemma normalise_near_trust: "normalise 0 0 near_trust = Inr (Some near_result)"
  by (simp add: normalise_def coords_def near_trust_def near_result_def haversine_km_same
        el_name_def el_phone_def el_address_def addr_parts_def addr_keys_def
        List.map_filter_simps truthy_def py_or_def or_str_def)

lemma normalise_way_no_center: "normalise 0 0 way_no_center = Inr None"
  by (simp add: normalise_def coords_def way_no_center_def)

lemma normalise_bare_node: "normalise 0 0 bare_node = Inr (Some bare_result)"
  by (simp add: normalise_def coords_def bare_node_def bare_result_def haversine_km_same
        el_name_def el_phone_def el_address_def addr_parts_def addr_keys_def
        List.map_filter_simps truthy_def py_or_def or_str_def)

lemma normalise_empty_name_node: "normalise 0 0 empty_name_node = Inr (Some bare_result)"
  by (simp add: normalise_def coords_def empty_name_node_def bare_result_def haversine_km_same
        el_name_def el_phone_def el_address_def addr_parts_def addr_keys_def
        List.map_filter_simps truthy_def py_or_def or_str_def)

lemma sample_collect: "collect 0 0 [] sample_elements = Inr [far_result, near_result, bare_result]"
  by (simp add: sample_elements_def normalise_far_clinic normalise_near_trust
        normalise_way_no_center normalise_bare_node)

lemma sample_normalised: "normalised 0 0 sample_elements = [far_result, near_result, bare_result]"
  by (simp add: normalised_def emitted_def sample_elements_def normalise_far_clinic
        normalise_near_trust normalise_way_no_center normalise_bare_node)

lemma sample_sorted:
  "sort_key distance_km [far_result, near_result, bare_result] = sample_results"
  by (simp add: sample_results_def far_result_def near_result_def bare_result_def not_le)

lemma sample_run: "overpass_query sample_env 0 0 5 ''hospital'' = Inr sample_results"
proof -
  have "overpass_query sample_env 0 0 5 ''hospital''
          = Inr (slice_to (sort_key distance_km [far_result, near_result, bare_result]) 6)"
    by (simp add: overpass_query_def sample_env_def raise_for_status_def json_elements_def
          sample_collect del: sort_key_simps)
  also have "slice_to (sort_key distance_km [far_result, near_result, bare_result]) 6
          = sample_results"
    unfolding sample_sorted by (simp add: slice_to_def sample_results_def)
  finally show ?thesis .
qed

lemma small_run: "overpass_query small_env 0 0 5 ''hospital'' = Inr [near_result, bare_result]"
proof -
  have "overpass_query small_env 0 0 5 ''hospital''
          = Inr (slice_to (sort_key distance_km [far_result, near_result, bare_result]) 2)"
    by (simp add: overpass_query_def small_env_def sample_env_def raise_for_status_def
          json_elements_def sample_collect del: sort_key_simps)
  also have "slice_to (sort_key distance_km [far_result, near_result, bare_result]) 2
          = [near_result, bare_result]"
    unfolding sample_sorted by (simp add: slice_to_def sample_results_def)
  finally show ?thesis .
qed

lemma sample_backend_elements:
  "backend_elements sample_env 0 0 5 ''hospital'' = sample_elements"
  "backend_elements small_env 0 0 5 ''hospital'' = sample_elements"
  by (simp_all add: backend_elements_def sample_env_def small_env_def)

subsection \<open>Witnesses and counterexamples\<close>

lemma haversine_km_float_origin: "haversine_km_float 0 0 0 0 = Inr 0"
  by (rule haversine_km_float_a_0) (simp add: hav_a_float_def Let_def rnd_0 fradians_0)

lemma normalise_float_origin_node:
  "normalise_float (Fin 0) (Fin 0) origin_node = Inr (Some zero_result)"
  by (simp add: normalise_float_def coords_float_def origin_node_def zero_result_def
        haversine_km_py_def haversine_km_float_origin
        el_name_def el_phone_def el_address_def addr_parts_def addr_keys_def
        List.map_filter_simps truthy_def py_or_def or_str_def)

lemma normalise_float_origin_way:
  "normalise_float (Fin 0) (Fin 0) origin_way = Inr (Some centre_result)"
  by (simp add: normalise_float_def coords_float_def origin_way_def centre_result_def
        haversine_km_py_def haversine_km_float_origin
        el_name_def el_phone_def el_address_def addr_parts_def addr_keys_def
        List.map_filter_simps truthy_def py_or_def or_str_def)

lemma normalise_float_nan_node:
  "normalise_float (Fin 0) (Fin 0) nan_node = Inr (Some nan_result)"
  by (simp add: normalise_float_def coords_float_def nan_node_def nan_result_def
        haversine_km_py_def
        el_name_def el_phone_def el_address_def addr_parts_def addr_keys_def
        List.map_filter_simps truthy_def py_or_def or_str_def)

lemma float_run_numbers:
  "overpass_query_float (float_sample_env [origin_way, origin_node]) (Fin 0) (Fin 0) (Fin 5) ''hospital''
     = Inr [centre_result, zero_result]"
proof -
  have c: "collect_float (Fin 0) (Fin 0) [] [origin_way, origin_node] = Inr [centre_result, zero_result]"
    by (simp add: normalise_float_origin_node normalise_float_origin_way)
  have s: "py_sorted (\<lambda>rs. rs) [centre_result, zero_result] = [centre_result, zero_result]"
    by (simp add: py_sorted_def centre_result_def zero_result_def the_fin_def)
  show ?thesis
    by (simp add: overpass_query_float_def float_sample_env_def raise_for_status_def
          json_elements_def normalise_float_origin_node normalise_float_origin_way s slice_to_def)
qed

lemma float_normalised_numbers:
  "normalised_float (Fin 0) (Fin 0)
     (backend_elements_float (float_sample_env [origin_way, origin_node]) (Fin 0) (Fin 0) 5 ''hospital'')
   = [centre_result, zero_result]"
  by (simp add: backend_elements_float_def float_sample_env_def normalised_float_def
        emitted_float_def normalise_float_origin_node normalise_float_origin_way)

text \<open>
  Witness for C1 as amended: a way and a node at the origin, both at distance zero, are
  returned in the order of the response.
\<close>

theorem ranking_sorted_stable_float_witness:
  "overpass_query_float (float_sample_env [origin_way, origin_node]) (Fin 0) (Fin 0) (Fin 5) ''hospital''
     = Inr [centre_result, zero_result]
   \<and> fr_distance_km centre_result \<noteq> NaN \<and> fr_distance_km zero_result \<noteq> NaN
   \<and> le_py (fr_distance_km ([centre_result, zero_result] ! 0))
            (fr_distance_km ([centre_result, zero_result] ! 1))
   \<and> prefix (filter (\<lambda>r. fr_distance_km r = Fin 0) [centre_result, zero_result])
        (filter (\<lambda>r. fr_distance_km r = Fin 0)
           (normalised_float (Fin 0) (Fin 0)
              (backend_elements_float (float_sample_env [origin_way, origin_node])
                 (Fin 0) (Fin 0) 5 ''hospital'')))"
proof -
  have n1: "fr_distance_km centre_result \<noteq> NaN" by (simp add: centre_result_def)
  have n2: "fr_distance_km zero_result \<noteq> NaN" by (simp add: zero_result_def)
  have num: "\<forall>r\<in>set (normalised_float (Fin 0) (Fin 0)
                (backend_elements_float (float_sample_env [origin_way, origin_node])
                   (Fin 0) (Fin 0) 5 ''hospital'')). fr_distance_km r \<noteq> NaN"
    unfolding float_normalised_numbers using n1 n2 by simp
  note t = ranking_sorted_stable_float [OF float_run_numbers num]
  have "(0::nat) \<le> 1 \<and> 1 < length [centre_result, zero_result] \<longrightarrow>
        le_py (fr_distance_km ([centre_result, zero_result] ! 0))
              (fr_distance_km ([centre_result, zero_result] ! 1))"
    using t by blast
  then have 1: "le_py (fr_distance_km ([centre_result, zero_result] ! 0))
                      (fr_distance_km ([centre_result, zero_result] ! 1))" by simp
  have 2: "prefix (filter (\<lambda>r. fr_distance_km r = Fin 0) [centre_result, zero_result])
        (filter (\<lambda>r. fr_distance_km r = Fin 0)
           (normalised_float (Fin 0) (Fin 0)
              (backend_elements_float (float_sample_env [origin_way, origin_node])
                 (Fin 0) (Fin 0) 5 ''hospital'')))"
    using t by blast
  from float_run_numbers n1 n2 1 2 show ?thesis by (intro conjI)
qed

text \<open>
  Counterexample for C1 as stated: the response has a node at the origin and a node whose
  latitude is NaN. The distance of the second is NaN, \<^verbatim>\<open>sorted\<close> leaves the two records as
  they are, and the distances 0.0 and NaN of the returned sequence are not
  non-decreasing: no comparison with NaN holds, in either order.
\<close>

theorem nan_distance_not_sorted:
  "overpass_query_float (float_sample_env [origin_node, nan_node]) (Fin 0) (Fin 0) (Fin 5) ''hospital''
     = Inr [zero_result, nan_result]
   \<and> \<not> le_py (fr_distance_km ([zero_result, nan_result] ! 0))
              (fr_distance_km ([zero_result, nan_result] ! 1))"
proof
  have c: "collect_float (Fin 0) (Fin 0) [] [origin_node, nan_node] = Inr [zero_result, nan_result]"
    by (simp add: normalise_float_origin_node normalise_float_nan_node)
  have s: "py_sorted (\<lambda>rs. rs) [zero_result, nan_result] = [zero_result, nan_result]"
    by (simp add: py_sorted_def nan_result_def)
  show "overpass_query_float (float_sample_env [origin_node, nan_node]) (Fin 0) (Fin 0) (Fin 5) ''hospital''
     = Inr [zero_result, nan_result]"
    by (simp add: overpass_query_float_def float_sample_env_def raise_for_status_def
          json_elements_def normalise_float_origin_node normalise_float_nan_node s slice_to_def)
  show "\<not> le_py (fr_distance_km ([zero_result, nan_result] ! 0))
              (fr_distance_km ([zero_result, nan_result] ! 1))"
    by (simp add: le_py_def zero_result_def nan_result_def)
qed

text \<open>
  Witness for C2: with a maximum of 2 the three records of the sample response are cut
  to the first two of the sorted sequence.
\<close>

theorem truncation_bound_witness:
  "0 \<le> MAX_RESULTS small_env
   \<and> overpass_query small_env 0 0 5 ''hospital'' = Inr [near_result, bare_result]
   \<and> int (length [near_result, bare_result]) \<le> MAX_RESULTS small_env
   \<and> [near_result, bare_result] =
       take (nat (MAX_RESULTS small_env))
         (sort_key distance_km (normalised 0 0 (backend_elements small_env 0 0 5 ''hospital'')))"
proof -
  have h: "0 \<le> MAX_RESULTS small_env" by (simp add: small_env_def sample_env_def)
  note t = truncation_bound [OF h small_run]
  from h small_run conjunct1 [OF t] conjunct2 [OF t] show ?thesis by (intro conjI)
qed

text \<open>
  Witness for C3: the far record has the coordinate of an element of the sample
  response, and the way without a centre is dropped without an error.
\<close>

theorem coordinates_resolved_witness:
  "overpass_query sample_env 0 0 5 ''hospital'' = Inr sample_results
   \<and> (\<exists>el. el \<in> set sample_elements \<and> effective_coordinate el = Some (0, 180))
   \<and> el_type way_no_center \<noteq> None
   \<and> effective_coordinate way_no_center = None
   \<and> normalise 0 0 way_no_center = Inr None
   \<and> overpass_query (with_response sample_env
          (Responded 200 (Json_object (Some ([far_clinic, near_trust] @ way_no_center # [bare_node])))))
          0 0 5 ''hospital''
     = overpass_query (with_response sample_env
          (Responded 200 (Json_object (Some ([far_clinic, near_trust] @ [bare_node])))))
          0 0 5 ''hospital''"
proof -
  note t = coordinates_resolved [where env = sample_env and qlat = 0 and qlon = 0
      and radius_km = 5 and amenity = "''hospital''" and rs = sample_results
      and el = way_no_center and status = 200 and xs = "[far_clinic, near_trust]"
      and ys = "[bare_node]"]
  have far: "far_result \<in> set sample_results" by (simp add: sample_results_def)
  have "\<exists>el\<in>set (backend_elements sample_env 0 0 5 ''hospital'').
           effective_coordinate el = Some (lat far_result, lon far_result)"
    using t sample_run far by blast
  then have 1: "\<exists>el. el \<in> set sample_elements \<and> effective_coordinate el = Some (0, 180)"
    by (simp add: sample_backend_elements far_result_def Bex_def)
  have 2: "el_type way_no_center \<noteq> None" by (simp add: way_no_center_def)
  have 3: "effective_coordinate way_no_center = None"
    by (simp add: way_no_center_def effective_coordinate_def)
  from t 2 3 have 4: "normalise 0 0 way_no_center = Inr None" by blast
  from t 2 3 have 5: "overpass_query (with_response sample_env
          (Responded 200 (Json_object (Some ([far_clinic, near_trust] @ way_no_center # [bare_node])))))
          0 0 5 ''hospital''
     = overpass_query (with_response sample_env
          (Responded 200 (Json_object (Some ([far_clinic, near_trust] @ [bare_node])))))
          0 0 5 ''hospital''" by blast
  from sample_run 1 2 3 4 5 show ?thesis by (intro conjI)
qed


text \<open>
  Witness for C10: status 200 and a JSON object without \<open>elements\<close>.
\<close>

theorem missing_elements_field_empty_witness:
  "\<not> (400 \<le> (200::nat) \<and> (200::nat) < 600)
   \<and> overpass_query (with_response sample_env (Responded 200 (Json_object None)))
        0 0 5 ''hospital'' = Inr []"
proof -
  have s: "\<not> (400 \<le> (200::nat) \<and> (200::nat) < 600)" by simp
  from missing_elements_field_empty [OF post_with_response s] s show ?thesis by (intro conjI)
qed

text \<open>
  Witness for C6: a timeout, status 503, a body that is not JSON, a body that is no JSON
  object, two bodies whose \<open>elements\<close> cannot be processed, an element without type, a
  response whose only element is dropped, and two sessions in which a good answer
  follows the failure and is left unused.
\<close>

theorem backend_failure_propagates_witness:
  "overpass_query (with_response sample_env (Failed Timed_out)) 0 0 5 ''hospital'' = Inl (Transport Timed_out)
   \<and> overpass_query (with_response sample_env (Responded 503 Not_json)) 0 0 5 ''hospital'' = Inl (HTTPError 503)
   \<and> overpass_query (with_response sample_env (Responded 200 Not_json)) 0 0 5 ''hospital'' = Inl JSONDecodeError
   \<and> overpass_query (with_response sample_env (Responded 200 Json_other)) 0 0 5 ''hospital'' = Inl AttributeError
   \<and> overpass_query (with_response sample_env (Responded 200 Json_elements_not_iterable)) 0 0 5 ''hospital'' = Inl TypeError
   \<and> overpass_query (with_response sample_env (Responded 200 Json_elements_non_objects)) 0 0 5 ''hospital'' = Inl AttributeError
   \<and> (\<exists>e. overpass_query (with_response sample_env (Responded 200 (Json_object (Some [bare_node, untyped_element])))) 0 0 5 ''hospital'' = Inl e)
   \<and> overpass_query (with_response sample_env (Responded 200 (Json_object (Some [way_no_center])))) 0 0 5 ''hospital'' = Inr []
   \<and> overpass_query_session sample_env [Failed Timed_out, Responded 200 (Json_object (Some sample_elements))] 0 0 5 ''hospital'' = (Inl (Transport Timed_out), [Responded 200 (Json_object (Some sample_elements))])
   \<and> overpass_query_session sample_env [Responded 503 Not_json, Responded 200 (Json_object (Some sample_elements))] 0 0 5 ''hospital'' = (Inl (HTTPError 503), [Responded 200 (Json_object (Some sample_elements))])"
proof -
  have 1: "overpass_query (with_response sample_env (Failed Timed_out)) 0 0 5 ''hospital'' = Inl (Transport Timed_out)"
    using backend_failure_propagates [where env = "with_response sample_env (Failed Timed_out)" and p = "Failed Timed_out"
          and qlat = 0 and qlon = 0 and radius_km = 5 and amenity = "''hospital''" and f = Timed_out,
          OF post_with_response] by blast
  have 2: "overpass_query (with_response sample_env (Responded 503 Not_json)) 0 0 5 ''hospital'' = Inl (HTTPError 503)"
    using backend_failure_propagates [where env = "with_response sample_env (Responded 503 Not_json)" and p = "Responded 503 Not_json"
          and qlat = 0 and qlon = 0 and radius_km = 5 and amenity = "''hospital''" and status = 503 and b = Not_json,
          OF post_with_response] by simp
  have 3: "overpass_query (with_response sample_env (Responded 200 Not_json)) 0 0 5 ''hospital'' = Inl JSONDecodeError"
    using backend_failure_propagates [where env = "with_response sample_env (Responded 200 Not_json)" and p = "Responded 200 Not_json"
          and qlat = 0 and qlon = 0 and radius_km = 5 and amenity = "''hospital''" and status = 200,
          OF post_with_response] by simp
  have 4: "overpass_query (with_response sample_env (Responded 200 Json_other)) 0 0 5 ''hospital'' = Inl AttributeError"
    using backend_failure_propagates [where env = "with_response sample_env (Responded 200 Json_other)" and p = "Responded 200 Json_other"
          and qlat = 0 and qlon = 0 and radius_km = 5 and amenity = "''hospital''" and status = 200,
          OF post_with_response] by simp
  have 5: "overpass_query (with_response sample_env (Responded 200 Json_elements_not_iterable)) 0 0 5 ''hospital'' = Inl TypeError"
    using backend_failure_propagates [where env = "with_response sample_env (Responded 200 Json_elements_not_iterable)" and p = "Responded 200 Json_elements_not_iterable"
          and qlat = 0 and qlon = 0 and radius_km = 5 and amenity = "''hospital''" and status = 200,
          OF post_with_response] by simp
  have 6: "overpass_query (with_response sample_env (Responded 200 Json_elements_non_objects)) 0 0 5 ''hospital'' = Inl AttributeError"
    using backend_failure_propagates [where env = "with_response sample_env (Responded 200 Json_elements_non_objects)" and p = "Responded 200 Json_elements_non_objects"
          and qlat = 0 and qlon = 0 and radius_km = 5 and amenity = "''hospital''" and status = 200,
          OF post_with_response] by simp
  have 7: "\<exists>e. overpass_query (with_response sample_env (Responded 200 (Json_object (Some [bare_node, untyped_element])))) 0 0 5 ''hospital'' = Inl e"
    using backend_failure_propagates [where env = "with_response sample_env (Responded 200 (Json_object (Some [bare_node, untyped_element])))" and p = "Responded 200 (Json_object (Some [bare_node, untyped_element]))"
          and qlat = 0 and qlon = 0 and radius_km = 5 and amenity = "''hospital''" and status = 200 and els = "[bare_node, untyped_element]",
          OF post_with_response]
    by (simp add: untyped_element_def)
  have 8: "overpass_query (with_response sample_env (Responded 200 (Json_object (Some [way_no_center])))) 0 0 5 ''hospital'' = Inr []"
    using backend_failure_propagates [where env = "with_response sample_env (Responded 200 (Json_object (Some [way_no_center])))" and p = "Responded 200 (Json_object (Some [way_no_center]))"
          and qlat = 0 and qlon = 0 and radius_km = 5 and amenity = "''hospital''" and status = 200 and els = "[way_no_center]",
          OF post_with_response]
    by (simp add: normalise_way_no_center)
  have 9: "overpass_query_session sample_env [Failed Timed_out, Responded 200 (Json_object (Some sample_elements))] 0 0 5 ''hospital'' = (Inl (Transport Timed_out), [Responded 200 (Json_object (Some sample_elements))])"
    using backend_failure_propagates [where env = "sample_env" and p = "requests_post sample_env (OVERPASS_URL sample_env) (build_query (str_float sample_env) 0 0 5 ''hospital'')"
          and qlat = 0 and qlon = 0 and radius_km = 5 and amenity = "''hospital''" and f = Timed_out and rest = "[Responded 200 (Json_object (Some sample_elements))]",
          OF refl] by blast
  have 10: "overpass_query_session sample_env [Responded 503 Not_json, Responded 200 (Json_object (Some sample_elements))] 0 0 5 ''hospital'' = (Inl (HTTPError 503), [Responded 200 (Json_object (Some sample_elements))])"
    using backend_failure_propagates [where env = "sample_env" and p = "requests_post sample_env (OVERPASS_URL sample_env) (build_query (str_float sample_env) 0 0 5 ''hospital'')"
          and qlat = 0 and qlon = 0 and radius_km = 5 and amenity = "''hospital''" and status = 503 and b = Not_json and rest = "[Responded 200 (Json_object (Some sample_elements))]",
          OF refl] by simp
  from 1 2 3 4 5 6 7 8 9 10 show ?thesis by (intro conjI)
qed


text \<open>
  Counterexample for C6 as stated: status 300 is not a 2xx status, yet
  \<open>raise_for_status\<close> accepts it and the engine returns the record of the response; and a
  body without the \<open>elements\<close> field of the wire contract is no failure either.
\<close>

theorem lenient_status_and_body:
  "\<not> (200 \<le> (300::nat) \<and> (300::nat) < 300)
   \<and> overpass_query (with_response sample_env (Responded 300 (Json_object (Some [bare_node]))))
        0 0 5 ''hospital'' = Inr [bare_result]
   \<and> overpass_query (with_response sample_env (Responded 200 (Json_object None)))
        0 0 5 ''hospital'' = Inr []"
  by (simp add: overpass_query_def with_response_def raise_for_status_def json_elements_def
        normalise_bare_node slice_to_def sample_env_def)




text \<open>
  Witness for C5 as amended: an element with operator, street and city, and an element
  without tags.
\<close>

theorem fallback_fields_witness:
  "normalise 0 0 near_trust = Inr (Some near_result)
   \<and> name near_result = ''Near Trust''
   \<and> contact near_result = ''Not available''
   \<and> address near_result = ''Main St, Null Island''
   \<and> normalise 0 0 bare_node = Inr (Some bare_result)
   \<and> name bare_result = ''Unknown''
   \<and> address bare_result = ''Not available''"
proof -
  note a = fallback_fields [OF normalise_near_trust]
  note b = fallback_fields [OF normalise_bare_node]
  have 1: "name near_result = ''Near Trust''"
    using a by (simp add: near_result_def)
  have 2: "contact near_result = ''Not available''"
    using a by (simp add: near_result_def)
  have 3: "address near_result = ''Main St, Null Island''"
    using a by (simp add: near_result_def)
  have 4: "name bare_result = ''Unknown''"
    using b by (simp add: bare_result_def)
  have 5: "address bare_result = ''Not available''"
    using b by (simp add: bare_result_def)
  from normalise_near_trust 1 2 3 normalise_bare_node 4 5 show ?thesis by (intro conjI)
qed

text \<open>
  Counterexample for C5 as stated: the tag \<open>name\<close> is present with the empty string as
  value, so it is the first present of name and operator, yet the name of the record is
  "Unknown".
\<close>

theorem empty_name_not_first_present:
  "tags_of empty_name_node ''name'' = Some ''''
   \<and> normalise 0 0 empty_name_node = Inr (Some bare_result)
   \<and> name bare_result = ''Unknown''
   \<and> name bare_result \<noteq> ''''"
proof (intro conjI)
  show "tags_of empty_name_node ''name'' = Some ''''"
    by (simp add: tags_of_def empty_name_node_def)
  show "normalise 0 0 empty_name_node = Inr (Some bare_result)"
    by (rule normalise_empty_name_node)
  show "name bare_result = ''Unknown''" and "name bare_result \<noteq> ''''"
    by (simp_all add: bare_result_def)
qed

end
